theory Spec2Isabelle
  imports Main
begin

section \<open>Data model of \<open>moat/middleware.py\<close>\<close>

text \<open>
  The module is Python 2 code for an old Django (\<open>django.core.urlresolvers\<close>): strings are
  byte strings, and \<open>map\<close> in \<open>__init__\<close> returns a list, so iterating over
  \<open>always_allow_urls\<close> does not consume it.

  Exceptions are values: a function that can raise returns \<open>error + 'a\<close>, with \<open>Inl\<close> the
  exception. \<open>AttributeError\<close> is the one exception the source catches (a setting that is
  not there); it is modelled by the setting being \<open>None\<close>.
\<close>

datatype error = Resolver404 | RuntimeError | TypeError | ValueError

text \<open>The values a session entry holds here: Python's \<open>None\<close> or a string.\<close>

datatype pyval = PyNone | PyStr string

text \<open>
  \<open>django.conf.settings\<close>, the three attributes the middleware reads at request time.
  \<open>MOAT_ENABLED\<close> and \<open>HTTP_AUTH_REALM\<close> may be missing (\<open>None\<close>: reading them raises
  \<open>AttributeError\<close>); \<open>DEBUG\<close> always exists in Django.
\<close>

record settings =
  MOAT_ENABLED :: "bool option"
  DEBUG :: bool
  HTTP_AUTH_REALM :: "string option"

text \<open>
  A compiled pattern (the result of \<open>re.compile\<close>) is represented by its \<open>search\<close> method,
  reduced to the truth value of the match object it returns.
\<close>

datatype regex = Regex (search: "string \<Rightarrow> bool")

text \<open>The fields \<open>__init__\<close> stores on the middleware object.\<close>

record MoatMiddleware =
  always_allow_modules :: "string list"
  always_allow_views :: "string list"
  always_allow_urls :: "regex list"
  allow_admin :: bool
  debug_disable_https :: bool

text \<open>
  The request object, with what the middleware reads of it. \<open>is_secure\<close>, \<open>get_host\<close> and
  \<open>get_full_path\<close> are methods without arguments in Django; each field holds what the
  method returns. \<open>session\<close> and \<open>META\<close> are dictionaries; \<open>http_method\<close> is
  \<open>request.method\<close>.
\<close>

record request =
  path :: string
  http_method :: string
  session :: "string \<rightharpoonup> pyval"
  META :: "string \<rightharpoonup> string"
  is_secure :: bool
  get_host :: string
  get_full_path :: string

text \<open>A view function, with its \<open>__module__\<close> and \<open>__name__\<close>.\<close>

record view_func =
  func_module :: string
  func_name :: string

text \<open>A user object as \<open>authenticate\<close> returns it.\<close>

record user =
  is_staff :: bool

text \<open>
  The library functions the middleware calls, taken as parameters:
  \<^item> \<open>resolve\<close> is \<open>django.core.urlresolvers.resolve\<close> followed by \<open>.func\<close>; it is given
    \<open>request.META.get('PATH_INFO')\<close>, which is \<open>None\<close> when the key is missing, and it
    raises (\<open>Resolver404\<close>) when no URL pattern matches;
  \<^item> \<open>authenticate\<close> is \<open>django.contrib.auth.authenticate\<close>, a user or \<open>None\<close>;
  \<^item> \<open>b64decode\<close> is \<open>base64.b64decode\<close>, which raises \<open>TypeError\<close> in Python 2 on
    incorrect padding.
\<close>

record env =
  resolve :: "string option \<Rightarrow> error + view_func"
  authenticate :: "string \<Rightarrow> string \<Rightarrow> user option"
  b64decode :: "string \<Rightarrow> error + string"

text \<open>
  An HTTP response: its status code and the headers this module sets (Django's default
  headers and the empty body are left out).
\<close>

record response =
  status_code :: nat
  headers :: "(string \<times> string) list"

text \<open>
  Everything a call of \<open>process_request\<close> could write to: the global settings, the
  middleware object and the request. Every function below takes the state and returns it
  with its result, also when it raises.
\<close>

record state =
  settings :: settings
  self :: MoatMiddleware
  request :: request

type_synonym 'a result = "(error + 'a) \<times> state"

section \<open>Python's string and dictionary operations\<close>

text \<open>\<open>str.isspace\<close> on one byte: space, and tab to carriage return (9 to 13).\<close>

definition isspace :: "char \<Rightarrow> bool" where
  "isspace c = (let n = (of_char c :: nat) in n = 32 \<or> (9 \<le> n \<and> n \<le> 13))"

text \<open>
  \<open>s.split()\<close>: the maximal runs of bytes that are not whitespace, in order. \<open>cur\<close> is the
  run being read.
\<close>

fun split_ws_acc :: "string \<Rightarrow> string \<Rightarrow> string list" where
  "split_ws_acc cur [] = (if cur = [] then [] else [cur])"
| "split_ws_acc cur (c # cs) =
     (if isspace c then (if cur = [] then split_ws_acc [] cs else cur # split_ws_acc [] cs)
      else split_ws_acc (cur @ [c]) cs)"

definition split_ws :: "string \<Rightarrow> string list" where
  "split_ws s = split_ws_acc [] s"

text \<open>\<open>s.split(sep)\<close> for a separator of one byte: one more piece than separators.\<close>

fun split_sep_acc :: "char \<Rightarrow> string \<Rightarrow> string \<Rightarrow> string list" where
  "split_sep_acc sep cur [] = [cur]"
| "split_sep_acc sep cur (c # cs) =
     (if c = sep then cur # split_sep_acc sep [] cs else split_sep_acc sep (cur @ [c]) cs)"

definition split_sep :: "char \<Rightarrow> string \<Rightarrow> string list" where
  "split_sep sep s = split_sep_acc sep [] s"

text \<open>\<open>s.lower()\<close>: each of the letters A to Z becomes its small letter, every other byte stays.\<close>

definition lower_char :: "char \<Rightarrow> char" where
  "lower_char c =
     (case map_of (zip ''ABCDEFGHIJKLMNOPQRSTUVWXYZ'' ''abcdefghijklmnopqrstuvwxyz'') c of
        None \<Rightarrow> c
      | Some l \<Rightarrow> l)"

definition lower :: "string \<Rightarrow> string" where
  "lower s = map lower_char s"

definition startswith :: "string \<Rightarrow> string \<Rightarrow> bool" where
  "startswith s p = (take (length p) s = p)"

text \<open>\<open>d.get(k)\<close>: \<open>None\<close> for a missing key.\<close>

definition dict_get :: "(string \<rightharpoonup> pyval) \<Rightarrow> string \<Rightarrow> pyval" where
  "dict_get d k = (case d k of None \<Rightarrow> PyNone | Some v \<Rightarrow> v)"

section \<open>Responses\<close>

definition HttpResponse :: response where
  "HttpResponse = \<lparr>status_code = 200, headers = []\<rparr>"

text \<open>\<open>resp[name] = v\<close>: replaces the header or adds it.\<close>

definition set_header :: "response \<Rightarrow> string \<Rightarrow> string \<Rightarrow> response" where
  "set_header resp name v = resp\<lparr>headers := filter (\<lambda>h. fst h \<noteq> name) (headers resp) @ [(name, v)]\<rparr>"

text \<open>
  \<open>HttpResponseTemporaryRedirect\<close> is Django's \<open>HttpResponseRedirect\<close>, which stores the
  URL in the \<open>Location\<close> header, with the status code overridden to 307.
\<close>

definition HttpResponseTemporaryRedirect :: "string \<Rightarrow> response" where
  "HttpResponseTemporaryRedirect redirect_to = (set_header HttpResponse ''Location'' redirect_to)\<lparr>status_code := 307\<rparr>"

section \<open>The middleware\<close>

text \<open>
  The loop over \<open>self.always_allow_urls\<close> of \<open>process_request\<close>: true when it returns
  from inside the loop, at the first pattern that matches.
\<close>

fun url_allowed :: "regex list \<Rightarrow> string \<Rightarrow> bool" where
  "url_allowed [] p = False"
| "url_allowed (allowed_url # rest) p = (if search allowed_url p then True else url_allowed rest p)"

text \<open>
  \<open>_redirect\<close>. The new URL is computed first; with \<open>settings.DEBUG\<close> and the method
  \<open>POST\<close> the function raises \<open>RuntimeError\<close>.
\<close>

definition redirect :: "state \<Rightarrow> response option result" where
  "redirect st =
     (let newurl = ''https://'' @ get_host (request st) @ get_full_path (request st) in
      if DEBUG (settings st) \<and> http_method (request st) = ''POST'' then (Inl RuntimeError, st)
      else (Inr (Some (HttpResponseTemporaryRedirect newurl)), st))"

text \<open>
  The end of \<open>_http_auth_helper\<close>: the 401 response with the realm of the settings, or the
  empty realm when \<open>HTTP_AUTH_REALM\<close> is missing.
\<close>

definition challenge :: "settings \<Rightarrow> response" where
  "challenge s =
     (let resp = HttpResponse\<lparr>status_code := 401\<rparr>;
          realm = (case HTTP_AUTH_REALM s of None \<Rightarrow> [] | Some r \<Rightarrow> r)
      in set_header resp ''WWW-Authenticate'' (''Basic realm='' @ [CHR 0x22] @ realm @ [CHR 0x22]))"

text \<open>
  \<open>_http_auth_helper\<close>. Returning \<open>None\<close> lets the request through; every path that does
  not return inside the nested conditions falls through to the challenge. The unpacking
  \<open>uname, passwd = ...split(':')\<close> raises \<open>ValueError\<close> unless the split has two pieces,
  and an exception of \<open>b64decode\<close> is not caught.
\<close>

definition http_auth_helper :: "env \<Rightarrow> state \<Rightarrow> response option result" where
  "http_auth_helper env st =
     (case META (request st) ''HTTP_AUTHORIZATION'' of
        None \<Rightarrow> (Inr (Some (challenge (settings st))), st)
      | Some header \<Rightarrow>
          (let auth = split_ws header in
           if length auth = 2 then
             (if lower (auth ! 0) = ''basic'' then
                (case b64decode env (auth ! 1) of
                   Inl e \<Rightarrow> (Inl e, st)
                 | Inr decoded \<Rightarrow>
                     (case split_sep (CHR '':'') decoded of
                        [uname, passwd] \<Rightarrow>
                          (case authenticate env uname passwd of
                             Some user \<Rightarrow>
                               (if is_staff user then
                                  (Inr None,
                                   st\<lparr>request := (request st)
                                     \<lparr>session := (session (request st))(''moat_username'' \<mapsto> PyStr uname)\<rparr>\<rparr>)
                                else (Inr (Some (challenge (settings st))), st))
                           | None \<Rightarrow> (Inr (Some (challenge (settings st))), st))
                      | _ \<Rightarrow> (Inl ValueError, st)))
              else (Inr (Some (challenge (settings st))), st))
           else (Inr (Some (challenge (settings st))), st)))"

text \<open>
  \<open>process_request\<close>. Returning \<open>None\<close> lets the request through; a response stops it.
  A missing \<open>MOAT_ENABLED\<close> raises \<open>AttributeError\<close>, which is caught and passed over, so
  the checks go on; a setting that is there and false returns at once. An exception of
  \<open>resolve\<close> is not caught. The forwarded-protocol override assigns \<open>request.is_secure\<close>:
  \<open>st1\<close> is the state after it.
\<close>

definition process_request :: "env \<Rightarrow> state \<Rightarrow> response option result" where
  "process_request env st =
     (if (case MOAT_ENABLED (settings st) of None \<Rightarrow> False | Some enabled \<Rightarrow> \<not> enabled)
      then (Inr None, st)
      else if url_allowed (always_allow_urls (self st)) (path (request st)) then (Inr None, st)
      else if dict_get (session (request st)) ''moat_username'' \<noteq> PyNone then (Inr None, st)
      else
        (let whitelisted_modules =
               [] @ (if always_allow_modules (self st) \<noteq> [] then always_allow_modules (self st) else []);
             whitelisted_views =
               [''django.views.generic.simple.redirect_to''] @
               (if always_allow_views (self st) \<noteq> [] then always_allow_views (self st) else [])
         in case resolve env (META (request st) ''PATH_INFO'') of
              Inl e \<Rightarrow> (Inl e, st)
            | Inr view_func \<Rightarrow>
                (let full_view_name = func_module view_func @ ''.'' @ func_name view_func in
                 if full_view_name \<in> set whitelisted_views then (Inr None, st)
                 else if func_module view_func \<in> set whitelisted_modules then (Inr None, st)
                 else if allow_admin (self st) \<and>
                         startswith (func_module view_func) ''django.contrib.admin''
                   then (Inr None, st)
                 else
                   (let st1 =
                          (if META (request st) ''HTTP_X_FORWARDED_PROTO'' = Some ''https''
                           then st\<lparr>request := (request st)\<lparr>is_secure := True\<rparr>\<rparr> else st)
                    in if \<not> debug_disable_https (self st1) \<and> \<not> is_secure (request st1)
                       then redirect st1
                       else http_auth_helper env st1))))"

section \<open>Paths through \<open>process_request\<close>\<close>

text \<open>
  The conditions under which \<open>process_request\<close> gets past every early return and reaches
  the transport check with the view function \<open>view_func\<close>: the kill-switch is not set to
  false, no URL pattern matches, the session has no user name, the path resolves, and
  neither the view, nor its module, nor the admin rule lets the request through.
\<close>

definition reaches_transport_check :: "env \<Rightarrow> state \<Rightarrow> view_func \<Rightarrow> bool" where
  "reaches_transport_check env st view_func \<longleftrightarrow>
     MOAT_ENABLED (settings st) \<noteq> Some False \<and>
     \<not> url_allowed (always_allow_urls (self st)) (path (request st)) \<and>
     dict_get (session (request st)) ''moat_username'' = PyNone \<and>
     resolve env (META (request st) ''PATH_INFO'') = Inr view_func \<and>
     func_module view_func @ ''.'' @ func_name view_func
       \<notin> set (''django.views.generic.simple.redirect_to'' # always_allow_views (self st)) \<and>
     func_module view_func \<notin> set (always_allow_modules (self st)) \<and>
     \<not> (allow_admin (self st) \<and> startswith (func_module view_func) ''django.contrib.admin'')"

text \<open>
  The state after the forwarded-protocol override: \<open>request.is_secure\<close> is replaced by a
  function that returns true when the header is there and is \<open>https\<close>.
\<close>

definition forwarded_proto_override :: "state \<Rightarrow> state" where
  "forwarded_proto_override st =
     (if META (request st) ''HTTP_X_FORWARDED_PROTO'' = Some ''https''
      then st\<lparr>request := (request st)\<lparr>is_secure := True\<rparr>\<rparr> else st)"

section \<open>A sample site\<close>

text \<open>
  A pattern without metacharacters, compiled: \<open>search\<close> finds the literal anywhere in the
  string, since \<open>search\<close> is not anchored.
\<close>

fun contains :: "string \<Rightarrow> string \<Rightarrow> bool" where
  "contains lit [] = (lit = [])"
| "contains lit (c # cs) = (startswith (c # cs) lit \<or> contains lit cs)"

definition literal_regex :: "string \<Rightarrow> regex" where
  "literal_regex lit = Regex (contains lit)"

text \<open>
  One routed view, three accounts (one of them staff), and \<open>b64decode\<close> on the tokens
  used below: \<open>YWRtaW46c2VjcmV0\<close> is \<open>admin:secret\<close>, \<open>Z3Vlc3Q6Z3Vlc3Q=\<close> is
  \<open>guest:guest\<close>, \<open>bm9jb2xvbg==\<close> is \<open>nocolon\<close>, \<open>YWRtaW46cGE6c3M=\<close> is \<open>admin:pa:ss\<close>,
  and \<open>abc\<close> has incorrect padding.
\<close>

definition sample_view :: view_func where
  "sample_view = \<lparr>func_module = ''shop.views'', func_name = ''checkout''\<rparr>"

definition sample_env :: env where
  "sample_env =
     \<lparr>resolve = (\<lambda>p. if p = Some ''/checkout/'' then Inr sample_view else Inl Resolver404),
      authenticate = (\<lambda>uname passwd.
        if uname = ''admin'' \<and> passwd = ''secret'' then Some \<lparr>is_staff = True\<rparr>
        else if uname = ''guest'' \<and> passwd = ''guest'' then Some \<lparr>is_staff = False\<rparr>
        else None),
      b64decode = (\<lambda>tok.
        if tok = ''YWRtaW46c2VjcmV0'' then Inr ''admin:secret''
        else if tok = ''Z3Vlc3Q6Z3Vlc3Q='' then Inr ''guest:guest''
        else if tok = ''bm9jb2xvbg=='' then Inr ''nocolon''
        else if tok = ''YWRtaW46cGE6c3M='' then Inr ''admin:pa:ss''
        else Inl TypeError)\<rparr>"

definition sample_settings :: settings where
  "sample_settings = \<lparr>MOAT_ENABLED = Some True, DEBUG = False, HTTP_AUTH_REALM = Some ''moat''\<rparr>"

definition sample_self :: MoatMiddleware where
  "sample_self =
     \<lparr>always_allow_modules = [''shop.public''], always_allow_views = [''shop.views.health''],
      always_allow_urls = [literal_regex ''/static/''], allow_admin = True,
      debug_disable_https = False\<rparr>"

text \<open>
  An insecure \<open>GET\<close> of the routed view, without session entry and without headers, and
  the state around it.
\<close>

definition sample_request :: request where
  "sample_request =
     \<lparr>path = ''/checkout/'', http_method = ''GET'', session = Map.empty,
      META = [''PATH_INFO'' \<mapsto> ''/checkout/''], is_secure = False,
      get_host = ''example.com'', get_full_path = ''/checkout/?step=2''\<rparr>"

definition sample_state :: state where
  "sample_state = \<lparr>settings = sample_settings, self = sample_self, request = sample_request\<rparr>"

text \<open>A state with more entries in \<open>request.META\<close>, and one with the secure transport.\<close>

definition with_headers :: "state \<Rightarrow> (string \<times> string) list \<Rightarrow> state" where
  "with_headers st hs = st\<lparr>request := (request st)\<lparr>META := META (request st) ++ map_of hs\<rparr>\<rparr>"

definition over_https :: "state \<Rightarrow> state" where
  "over_https st = st\<lparr>request := (request st)\<lparr>is_secure := True\<rparr>\<rparr>"

text \<open>The 401 response with the realm \<open>moat\<close>, written out.\<close>

definition moat_challenge :: response where
  "moat_challenge =
     \<lparr>status_code = 401,
      headers = [(''WWW-Authenticate'', ''Basic realm='' @ [CHR 0x22] @ ''moat'' @ [CHR 0x22])]\<rparr>"

section \<open>Properties\<close>

text \<open>The loop over the patterns lets a path through exactly when some pattern finds it.\<close>

lemma url_allowed_iff: "url_allowed rs p \<longleftrightarrow> (\<exists>r \<in> set rs. search r p)"
  by (induction rs) auto

text \<open>The definitions to unfold when a function is run on the sample site.\<close>

lemmas sample_defs = sample_env_def sample_state_def sample_request_def sample_self_def
  sample_settings_def sample_view_def literal_regex_def with_headers_def over_https_def
  moat_challenge_def

lemmas py_defs = startswith_def dict_get_def split_ws_def isspace_def lower_def lower_char_def
  split_sep_def

lemmas response_defs = HttpResponse_def set_header_def HttpResponseTemporaryRedirect_def
  challenge_def

subsection \<open>The path to the transport check\<close>

text \<open>
  Past every early return, \<open>process_request\<close> is the forwarded-protocol override followed
  by the redirect or by the credential check.
\<close>

lemma process_request_gated:
  assumes "reaches_transport_check env st view_func"
  shows "process_request env st =
    (let st1 = forwarded_proto_override st
     in if \<not> debug_disable_https (self st1) \<and> \<not> is_secure (request st1)
        then redirect st1 else http_auth_helper env st1)"
  using assms
  by (auto simp: process_request_def reaches_transport_check_def forwarded_proto_override_def
      Let_def split: option.splits)

lemma forwarded_proto_override_fields [simp]:
  "settings (forwarded_proto_override st) = settings st"
  "self (forwarded_proto_override st) = self st"
  "META (request (forwarded_proto_override st)) = META (request st)"
  "session (request (forwarded_proto_override st)) = session (request st)"
  "http_method (request (forwarded_proto_override st)) = http_method (request st)"
  "get_host (request (forwarded_proto_override st)) = get_host (request st)"
  "get_full_path (request (forwarded_proto_override st)) = get_full_path (request st)"
  by (simp_all add: forwarded_proto_override_def)

lemma process_request_insecure:
  assumes "reaches_transport_check env st view_func"
    and "\<not> is_secure (request st)"
    and "META (request st) ''HTTP_X_FORWARDED_PROTO'' \<noteq> Some ''https''"
    and "\<not> debug_disable_https (self st)"
  shows "process_request env st = redirect st"
proof -
  have "forwarded_proto_override st = st"
    using assms(3) by (simp add: forwarded_proto_override_def)
  then show ?thesis
    using assms(2,4) process_request_gated [OF assms(1)] by (simp add: Let_def)
qed

lemma redirect_response:
  "HttpResponseTemporaryRedirect url = \<lparr>status_code = 307, headers = [(''Location'', url)]\<rparr>"
  by (simp add: response_defs)

subsection \<open>Splitting strings\<close>

text \<open>
  A header made of \<open>Basic\<close>, one space and a token without whitespace splits into these
  two; a text with one separator splits into the two sides of it; and a split has one
  more piece than the text has separators.
\<close>

lemma split_ws_acc_word:
  "\<forall>c \<in> set w. \<not> isspace c \<Longrightarrow> split_ws_acc cur w = (if cur @ w = [] then [] else [cur @ w])"
  by (induction w arbitrary: cur) auto

lemma split_ws_basic:
  assumes "tok \<noteq> []" and "\<forall>c \<in> set tok. \<not> isspace c"
  shows "split_ws (''Basic '' @ tok) = [''Basic'', tok]"
proof -
  have "split_ws (''Basic '' @ tok) = ''Basic'' # split_ws_acc [] tok"
    by (simp add: split_ws_def isspace_def)
  then show ?thesis
    using assms by (simp add: split_ws_acc_word)
qed

lemma split_sep_acc_prefix:
  "sep \<notin> set w \<Longrightarrow> split_sep_acc sep cur (w @ rest) = split_sep_acc sep (cur @ w) rest"
  by (induction w arbitrary: cur) auto

lemma split_sep_pair:
  assumes "sep \<notin> set u" and "sep \<notin> set p"
  shows "split_sep sep (u @ sep # p) = [u, p]"
proof -
  have "split_sep_acc sep [] (u @ sep # p) = split_sep_acc sep u (sep # p)"
    using assms(1) split_sep_acc_prefix [of sep u "[]" "sep # p"] by simp
  moreover have "split_sep_acc sep [] (p @ []) = split_sep_acc sep p []"
    using assms(2) split_sep_acc_prefix [of sep p "[]" "[]"] by simp
  ultimately show ?thesis
    by (simp add: split_sep_def)
qed

lemma length_split_sep_acc: "length (split_sep_acc sep cur s) = Suc (count_list s sep)"
  by (induction s arbitrary: cur) auto

lemma length_split_sep: "length (split_sep sep s) = Suc (count_list s sep)"
  by (simp add: split_sep_def length_split_sep_acc)

subsection \<open>The credential check\<close>

text \<open>
  For every header of two tokens with the scheme \<open>basic\<close>: an exception of \<open>b64decode\<close>
  leaves \<open>_http_auth_helper\<close>, and so does \<open>ValueError\<close> whenever the decoded text
  does not hold exactly one colon.
\<close>

lemma http_auth_helper_decode_error:
  assumes "META (request st) ''HTTP_AUTHORIZATION'' = Some header"
    and "split_ws header = [scheme, tok]" and "lower scheme = ''basic''"
    and "b64decode env tok = Inl e"
  shows "http_auth_helper env st = (Inl e, st)"
  using assms by (simp add: http_auth_helper_def)

lemma http_auth_helper_unpack_error:
  assumes "META (request st) ''HTTP_AUTHORIZATION'' = Some header"
    and "split_ws header = [scheme, tok]" and "lower scheme = ''basic''"
    and "b64decode env tok = Inr decoded" and "count_list decoded (CHR '':'') \<noteq> 1"
  shows "http_auth_helper env st = (Inl ValueError, st)"
proof -
  have "length (split_sep (CHR '':'') decoded) \<noteq> 2"
    using assms(5) by (simp add: length_split_sep)
  then have "(case split_sep (CHR '':'') decoded of
        [uname, passwd] \<Rightarrow> f uname passwd | _ \<Rightarrow> (Inl ValueError, st)) = (Inl ValueError, st)" for f
    by (auto split: list.splits)
  then show ?thesis
    using assms(1-4) by (simp add: http_auth_helper_def)
qed


lemma http_auth_helper_result:
  "fst (http_auth_helper env st) = Inr None \<or>
   fst (http_auth_helper env st) = Inr (Some (challenge (settings st))) \<or>
   (\<exists>e. fst (http_auth_helper env st) = Inl e)"
  by (auto simp: http_auth_helper_def Let_def split: option.splits sum.splits list.splits)

lemma status_code_challenge: "status_code (challenge s) = 401"
  by (simp add: response_defs Let_def)


subsection \<open>What \<open>process_request\<close> writes\<close>


subsection \<open>What \<open>process_request\<close> reads of the settings\<close>

text \<open>
  With gating on, the result and the request afterwards depend on the settings through
  \<open>DEBUG\<close> and \<open>HTTP_AUTH_REALM\<close> only.
\<close>

lemma http_auth_helper_settings:
  assumes "HTTP_AUTH_REALM s' = HTTP_AUTH_REALM (settings st)"
  shows "fst (http_auth_helper env (st\<lparr>settings := s'\<rparr>)) = fst (http_auth_helper env st) \<and>
         request (snd (http_auth_helper env (st\<lparr>settings := s'\<rparr>))) = request (snd (http_auth_helper env st))"
  using assms
  by (simp add: http_auth_helper_def challenge_def Let_def split: option.split sum.split list.split)

lemma redirect_settings:
  assumes "DEBUG s' = DEBUG (settings st)"
  shows "fst (redirect (st\<lparr>settings := s'\<rparr>)) = fst (redirect st) \<and>
         request (snd (redirect (st\<lparr>settings := s'\<rparr>))) = request (snd (redirect st))"
  using assms by (simp add: redirect_def Let_def)

lemma process_request_settings:
  assumes on: "MOAT_ENABLED (settings st) \<noteq> Some False" and on': "MOAT_ENABLED s' \<noteq> Some False"
    and debug: "DEBUG s' = DEBUG (settings st)"
    and realm: "HTTP_AUTH_REALM s' = HTTP_AUTH_REALM (settings st)"
  shows "fst (process_request env (st\<lparr>settings := s'\<rparr>)) = fst (process_request env st) \<and>
         request (snd (process_request env (st\<lparr>settings := s'\<rparr>))) = request (snd (process_request env st))"
proof -
  let ?st' = "st\<lparr>settings := s'\<rparr>"
  have flag: "\<not> (case MOAT_ENABLED (settings st) of None \<Rightarrow> False | Some enabled \<Rightarrow> \<not> enabled)"
    "\<not> (case MOAT_ENABLED s' of None \<Rightarrow> False | Some enabled \<Rightarrow> \<not> enabled)"
    using on on' by (auto split: option.split)
  show ?thesis
  proof (cases "url_allowed (always_allow_urls (self st)) (path (request st)) \<or>
      dict_get (session (request st)) ''moat_username'' \<noteq> PyNone")
    case True
    then show ?thesis
      using flag by (auto simp: process_request_def)
  next
    case early: False
    show ?thesis
    proof (cases "resolve env (META (request st) ''PATH_INFO'')")
      case (Inl e)
      then show ?thesis
        using flag early by (simp add: process_request_def)
    next
      case (Inr view_func)
      show ?thesis
      proof (cases "reaches_transport_check env st view_func")
        case True
        then have reach': "reaches_transport_check env ?st' view_func"
          using on' by (simp add: reaches_transport_check_def)
        define c where "c \<longleftrightarrow> \<not> debug_disable_https (self st) \<and>
          \<not> is_secure (request (forwarded_proto_override st))"
        let ?st1 = "forwarded_proto_override st"
        have override: "forwarded_proto_override ?st' = ?st1\<lparr>settings := s'\<rparr>"
          by (simp add: forwarded_proto_override_def)
        have a: "process_request env st = (if c then redirect ?st1 else http_auth_helper env ?st1)"
          using process_request_gated [OF True] by (simp add: Let_def c_def)
        have b: "process_request env ?st' =
            (if c then redirect (?st1\<lparr>settings := s'\<rparr>) else http_auth_helper env (?st1\<lparr>settings := s'\<rparr>))"
          using process_request_gated [OF reach'] by (simp add: Let_def override c_def)
        have "HTTP_AUTH_REALM s' = HTTP_AUTH_REALM (settings ?st1)" "DEBUG s' = DEBUG (settings ?st1)"
          using debug realm by simp_all
        then show ?thesis
          unfolding a b
          using http_auth_helper_settings [of s' ?st1 env] redirect_settings [of s' ?st1]
          by (cases c) simp_all
      next
        case False
        then have listed: "func_module view_func @ ''.'' @ func_name view_func
              \<in> set (''django.views.generic.simple.redirect_to'' # always_allow_views (self st)) \<or>
            func_module view_func \<in> set (always_allow_modules (self st)) \<or>
            (allow_admin (self st) \<and> startswith (func_module view_func) ''django.contrib.admin'')"
          using on early Inr by (auto simp: reaches_transport_check_def)
        have "process_request env st = (Inr None, st)"
          using flag(1) early Inr listed by (auto simp: process_request_def Let_def)
        moreover have "process_request env ?st' = (Inr None, ?st')"
          using flag(2) early Inr listed by (auto simp: process_request_def Let_def)
        ultimately show ?thesis by simp
      qed
    qed
  qed
qed

section \<open>The claims\<close>

text \<open>
  \<^bold>\<open>C4\<close>. When some pattern of \<open>always_allow_urls\<close> is found in the path by its \<open>search\<close>,
  \<open>process_request\<close> returns \<open>None\<close> (the request is let through) and writes nothing,
  whatever the settings, the session, the headers, the transport, the resolver and the
  credentials are: the loop returns at the first pattern that matches, before every check
  but the kill-switch, which lets the request through as well.
\<close>

theorem C4_url_allow_list:
  assumes "\<exists>allowed_url \<in> set (always_allow_urls (self st)). search allowed_url (path (request st))"
  shows "process_request env st = (Inr None, st)"
  using assms by (simp add: process_request_def url_allowed_iff)

theorem C4_url_allow_list_witness:
  "(\<exists>allowed_url \<in> set (always_allow_urls (self (sample_state\<lparr>request := sample_request\<lparr>path := ''/media/static/app.css''\<rparr>\<rparr>))).
      search allowed_url (path (request (sample_state\<lparr>request := sample_request\<lparr>path := ''/media/static/app.css''\<rparr>\<rparr>)))) \<and>
   process_request sample_env (sample_state\<lparr>request := sample_request\<lparr>path := ''/media/static/app.css''\<rparr>\<rparr>) =
     (Inr None, sample_state\<lparr>request := sample_request\<lparr>path := ''/media/static/app.css''\<rparr>\<rparr>)"
proof -
  let ?st = "sample_state\<lparr>request := sample_request\<lparr>path := ''/media/static/app.css''\<rparr>\<rparr>"
  have found: "\<exists>allowed_url \<in> set (always_allow_urls (self ?st)). search allowed_url (path (request ?st))"
    by (simp add: sample_defs startswith_def)
  from found C4_url_allow_list [OF found, of sample_env] show ?thesis
    by blast
qed

text \<open>
  \<^bold>\<open>C2\<close>, as stated, fails: with \<open>MOAT_ENABLED\<close> missing from the settings, a request over a
  secure transport without credentials is answered with the 401 challenge, not let
  through.
\<close>

theorem C2_absent_flag_counterexample:
  "MOAT_ENABLED (settings (over_https (sample_state\<lparr>settings := sample_settings\<lparr>MOAT_ENABLED := None\<rparr>\<rparr>))) = None \<and>
   fst (process_request sample_env
         (over_https (sample_state\<lparr>settings := sample_settings\<lparr>MOAT_ENABLED := None\<rparr>\<rparr>))) =
     Inr (Some moat_challenge)"
  by (simp add: process_request_def http_auth_helper_def sample_defs py_defs response_defs Let_def)

text \<open>
  \<^bold>\<open>C2\<close>, amended. With \<open>MOAT_ENABLED\<close> missing, \<open>process_request\<close> gates exactly as with
  the flag set to true: the result and the request it leaves behind are the same. No
  gating takes place only when the flag is there and false: then the request is let
  through and nothing is written, whatever the path, the session, the transport and the
  credentials are.
\<close>

theorem C2_absent_flag_gates:
  "(MOAT_ENABLED (settings st) = None \<longrightarrow>
      fst (process_request env st) =
        fst (process_request env (st\<lparr>settings := (settings st)\<lparr>MOAT_ENABLED := Some True\<rparr>\<rparr>)) \<and>
      request (snd (process_request env st)) =
        request (snd (process_request env (st\<lparr>settings := (settings st)\<lparr>MOAT_ENABLED := Some True\<rparr>\<rparr>)))) \<and>
   (MOAT_ENABLED (settings st) = Some False \<longrightarrow> process_request env st = (Inr None, st))"
proof (intro conjI impI)
  assume "MOAT_ENABLED (settings st) = Some False"
  then show "process_request env st = (Inr None, st)"
    by (simp add: process_request_def)
next
  let ?s' = "(settings st)\<lparr>MOAT_ENABLED := Some True\<rparr>"
  assume "MOAT_ENABLED (settings st) = None"
  then have "MOAT_ENABLED (settings st) \<noteq> Some False"
    by simp
  from process_request_settings [OF this, of ?s' env]
  have same: "fst (process_request env (st\<lparr>settings := ?s'\<rparr>)) = fst (process_request env st) \<and>
      request (snd (process_request env (st\<lparr>settings := ?s'\<rparr>))) = request (snd (process_request env st))"
    by simp
  from same show "fst (process_request env st) = fst (process_request env (st\<lparr>settings := ?s'\<rparr>))"
    by simp
  from same show "request (snd (process_request env st)) =
      request (snd (process_request env (st\<lparr>settings := ?s'\<rparr>)))"
    by simp
qed

theorem C2_absent_flag_gates_witness:
  "MOAT_ENABLED (settings (over_https (sample_state\<lparr>settings := sample_settings\<lparr>MOAT_ENABLED := None\<rparr>\<rparr>))) = None \<and>
   fst (process_request sample_env
         (over_https (sample_state\<lparr>settings := sample_settings\<lparr>MOAT_ENABLED := None\<rparr>\<rparr>))) =
     fst (process_request sample_env (over_https sample_state)) \<and>
   MOAT_ENABLED (settings (sample_state\<lparr>settings := sample_settings\<lparr>MOAT_ENABLED := Some False\<rparr>\<rparr>)) = Some False \<and>
   process_request sample_env (sample_state\<lparr>settings := sample_settings\<lparr>MOAT_ENABLED := Some False\<rparr>\<rparr>) =
     (Inr None, sample_state\<lparr>settings := sample_settings\<lparr>MOAT_ENABLED := Some False\<rparr>\<rparr>)"
  using C2_absent_flag_gates [of "over_https (sample_state\<lparr>settings := sample_settings\<lparr>MOAT_ENABLED := None\<rparr>\<rparr>)" sample_env]
    C2_absent_flag_gates [of "sample_state\<lparr>settings := sample_settings\<lparr>MOAT_ENABLED := Some False\<rparr>\<rparr>" sample_env]
  by (simp add: sample_state_def sample_settings_def over_https_def)

text \<open>
  \<^bold>\<open>C3\<close>, as stated, fails: for a path that the resolver does not know, with gating on,
  no URL pattern matching and no session entry, \<open>process_request\<close> raises the resolver's
  \<open>Resolver404\<close>. It returns no response and reaches neither the transport check nor
  the credential check.
\<close>

theorem C3_unresolvable_counterexample:
  "resolve sample_env (META (request (sample_state\<lparr>request := sample_request
       \<lparr>path := ''/missing/'', META := [''PATH_INFO'' \<mapsto> ''/missing/'']\<rparr>\<rparr>)) ''PATH_INFO'') = Inl Resolver404 \<and>
   process_request sample_env (sample_state\<lparr>request := sample_request
       \<lparr>path := ''/missing/'', META := [''PATH_INFO'' \<mapsto> ''/missing/'']\<rparr>\<rparr>) =
     (Inl Resolver404, sample_state\<lparr>request := sample_request
       \<lparr>path := ''/missing/'', META := [''PATH_INFO'' \<mapsto> ''/missing/'']\<rparr>\<rparr>)"
  by (simp add: process_request_def sample_defs py_defs Let_def)

text \<open>
  \<^bold>\<open>C3\<close>, amended. When the resolver raises on the request's path, and the request was
  not let through before (kill-switch, URL pattern, session), \<open>process_request\<close> raises
  the same exception: it returns no response, makes no transport or credential check,
  and writes nothing.
\<close>

theorem C3_unresolvable_raises:
  assumes "MOAT_ENABLED (settings st) \<noteq> Some False"
    and "\<not> url_allowed (always_allow_urls (self st)) (path (request st))"
    and "dict_get (session (request st)) ''moat_username'' = PyNone"
    and "resolve env (META (request st) ''PATH_INFO'') = Inl e"
  shows "process_request env st = (Inl e, st)"
  using assms by (auto simp: process_request_def Let_def split: option.splits)

theorem C3_unresolvable_raises_witness:
  "MOAT_ENABLED (settings (with_headers sample_state [(''PATH_INFO'', ''/missing/'')])) \<noteq> Some False \<and>
   \<not> url_allowed (always_allow_urls (self (with_headers sample_state [(''PATH_INFO'', ''/missing/'')])))
       (path (request (with_headers sample_state [(''PATH_INFO'', ''/missing/'')]))) \<and>
   dict_get (session (request (with_headers sample_state [(''PATH_INFO'', ''/missing/'')]))) ''moat_username'' = PyNone \<and>
   resolve sample_env (META (request (with_headers sample_state [(''PATH_INFO'', ''/missing/'')])) ''PATH_INFO'') =
     Inl Resolver404 \<and>
   process_request sample_env (with_headers sample_state [(''PATH_INFO'', ''/missing/'')]) =
     (Inl Resolver404, with_headers sample_state [(''PATH_INFO'', ''/missing/'')])"
proof -
  let ?st = "with_headers sample_state [(''PATH_INFO'', ''/missing/'')]"
  have h1: "MOAT_ENABLED (settings ?st) \<noteq> Some False"
    by (simp add: sample_defs)
  have h2: "\<not> url_allowed (always_allow_urls (self ?st)) (path (request ?st))"
    by (simp add: sample_defs startswith_def)
  have h3: "dict_get (session (request ?st)) ''moat_username'' = PyNone"
    by (simp add: sample_defs dict_get_def)
  have h4: "resolve sample_env (META (request ?st) ''PATH_INFO'') = Inl Resolver404"
    by (simp add: sample_defs)
  from h1 h2 h3 h4 C3_unresolvable_raises [OF h1 h2 h3 h4] show ?thesis
    by blast
qed

text \<open>
  \<^bold>\<open>C1\<close>. The claim asks for the 401 challenge when the credential token of a
  two-token \<open>Basic\<close> header is not valid base64 or its decoded text does not hold exactly
  one colon. The code raises instead, on a secure request that reaches the credential
  check: \<open>TypeError\<close> from \<open>b64decode\<close> for the token \<open>abc\<close>, and \<open>ValueError\<close> from
  the unpacking for the tokens that decode to \<open>nocolon\<close> and to \<open>admin:pa:ss\<close>. Nothing
  in \<open>_http_auth_helper\<close> catches them, while every other failure of the header falls
  through to the challenge.
\<close>

theorem C1_malformed_credentials_raise:
  "process_request sample_env
     (with_headers (over_https sample_state) [(''HTTP_AUTHORIZATION'', ''Basic abc'')]) =
     (Inl TypeError, with_headers (over_https sample_state) [(''HTTP_AUTHORIZATION'', ''Basic abc'')]) \<and>
   process_request sample_env
     (with_headers (over_https sample_state) [(''HTTP_AUTHORIZATION'', ''Basic bm9jb2xvbg=='')]) =
     (Inl ValueError,
      with_headers (over_https sample_state) [(''HTTP_AUTHORIZATION'', ''Basic bm9jb2xvbg=='')]) \<and>
   process_request sample_env
     (with_headers (over_https sample_state) [(''HTTP_AUTHORIZATION'', ''Basic YWRtaW46cGE6c3M='')]) =
     (Inl ValueError,
      with_headers (over_https sample_state) [(''HTTP_AUTHORIZATION'', ''Basic YWRtaW46cGE6c3M='')])"
  by (simp add: process_request_def http_auth_helper_def sample_defs py_defs Let_def)


text \<open>
  \<^bold>\<open>C5\<close>. A request reaches the credential check (it gets past every early return, and
  the transport check does not redirect it) with the header \<open>Basic\<close>, one space, and a
  token without whitespace that \<open>b64decode\<close> turns into \<open>uname:passwd\<close>, the colon being
  the only one (well-formed as C1 has it: exactly one separator). If \<open>authenticate\<close>
  returns a user for \<open>uname\<close> and \<open>passwd\<close> and the user is staff, then
  \<open>process_request\<close> returns \<open>None\<close> (the request is let through) and the session of the
  request afterwards is the one before with \<open>moat_username\<close> set to \<open>uname\<close>.
\<close>

theorem C5_basic_auth_staff_allowed:
  assumes reach: "reaches_transport_check env st view_func"
    and secure: "debug_disable_https (self st) \<or> is_secure (request (forwarded_proto_override st))"
    and header: "META (request st) ''HTTP_AUTHORIZATION'' = Some (''Basic '' @ tok)"
    and tok: "tok \<noteq> []" "\<forall>c \<in> set tok. \<not> isspace c"
    and decoded: "b64decode env tok = Inr (uname @ '':'' @ passwd)"
    and colon: "CHR '':'' \<notin> set uname" "CHR '':'' \<notin> set passwd"
    and verified: "authenticate env uname passwd = Some u" "is_staff u"
  shows "fst (process_request env st) = Inr None \<and>
    session (request (snd (process_request env st))) =
      (session (request st))(''moat_username'' \<mapsto> PyStr uname)"
proof -
  let ?st1 = "forwarded_proto_override st"
  have "process_request env st = http_auth_helper env ?st1"
    using process_request_gated [OF reach] secure by (auto simp: Let_def)
  moreover have "split_ws (''Basic '' @ tok) = [''Basic'', tok]"
    using tok by (rule split_ws_basic)
  moreover have "lower ''Basic'' = ''basic''"
    by (simp add: lower_def lower_char_def)
  moreover have "split_sep (CHR '':'') (uname @ '':'' @ passwd) = [uname, passwd]"
    using split_sep_pair [OF colon] by simp
  ultimately show ?thesis
    using header decoded verified by (simp add: http_auth_helper_def)
qed

theorem C5_basic_auth_staff_allowed_witness:
  "reaches_transport_check sample_env
     (with_headers (over_https sample_state) [(''HTTP_AUTHORIZATION'', ''Basic YWRtaW46c2VjcmV0'')]) sample_view \<and>
   b64decode sample_env ''YWRtaW46c2VjcmV0'' = Inr (''admin'' @ '':'' @ ''secret'') \<and>
   authenticate sample_env ''admin'' ''secret'' = Some \<lparr>is_staff = True\<rparr> \<and>
   fst (process_request sample_env
     (with_headers (over_https sample_state) [(''HTTP_AUTHORIZATION'', ''Basic YWRtaW46c2VjcmV0'')])) = Inr None \<and>
   session (request (snd (process_request sample_env
     (with_headers (over_https sample_state) [(''HTTP_AUTHORIZATION'', ''Basic YWRtaW46c2VjcmV0'')])))) =
     [''moat_username'' \<mapsto> PyStr ''admin'']"
proof -
  let ?st = "with_headers (over_https sample_state) [(''HTTP_AUTHORIZATION'', ''Basic YWRtaW46c2VjcmV0'')]"
  have reach: "reaches_transport_check sample_env ?st sample_view"
    by (simp add: reaches_transport_check_def sample_defs startswith_def dict_get_def)
  have secure: "debug_disable_https (self ?st) \<or> is_secure (request (forwarded_proto_override ?st))"
    by (simp add: forwarded_proto_override_def sample_defs)
  have header: "META (request ?st) ''HTTP_AUTHORIZATION'' = Some (''Basic '' @ ''YWRtaW46c2VjcmV0'')"
    by (simp add: sample_defs)
  have tok: "''YWRtaW46c2VjcmV0'' \<noteq> []" "\<forall>c \<in> set ''YWRtaW46c2VjcmV0''. \<not> isspace c"
    by (simp_all add: isspace_def)
  have decoded: "b64decode sample_env ''YWRtaW46c2VjcmV0'' = Inr (''admin'' @ '':'' @ ''secret'')"
    by (simp add: sample_env_def)
  have colon: "CHR '':'' \<notin> set ''admin''" "CHR '':'' \<notin> set ''secret''"
    by simp_all
  have verified: "authenticate sample_env ''admin'' ''secret'' = Some \<lparr>is_staff = True\<rparr>"
      "is_staff \<lparr>is_staff = True\<rparr>"
    by (simp_all add: sample_env_def)
  have empty: "session (request ?st) = Map.empty"
    by (simp add: sample_defs)
  from C5_basic_auth_staff_allowed [OF reach secure header tok decoded colon verified]
  show ?thesis
    using reach decoded verified(1) by (simp add: empty)
qed





text \<open>
  \<^bold>\<open>C7\<close>. A request that gets past every early return and carries the forwarded-protocol
  header with the value \<open>https\<close> is treated as secure, whatever its transport flag is:
  \<open>process_request\<close> goes on to the credential check, on the request with \<open>is_secure\<close>
  overridden, and what it returns is never the redirect response.
\<close>

theorem C7_forwarded_https_not_redirected:
  assumes reach: "reaches_transport_check env st view_func"
    and forwarded: "META (request st) ''HTTP_X_FORWARDED_PROTO'' = Some ''https''"
  shows "process_request env st = http_auth_helper env (st\<lparr>request := (request st)\<lparr>is_secure := True\<rparr>\<rparr>) \<and>
    (\<forall>url. fst (process_request env st) \<noteq> Inr (Some (HttpResponseTemporaryRedirect url)))"
proof -
  let ?st1 = "st\<lparr>request := (request st)\<lparr>is_secure := True\<rparr>\<rparr>"
  have "forwarded_proto_override st = ?st1"
    using forwarded by (simp add: forwarded_proto_override_def)
  then have checked: "process_request env st = http_auth_helper env ?st1"
    using process_request_gated [OF reach] by (simp add: Let_def)
  have "fst (http_auth_helper env ?st1) \<noteq> Inr (Some (HttpResponseTemporaryRedirect url))" for url
  proof
    assume redirected: "fst (http_auth_helper env ?st1) = Inr (Some (HttpResponseTemporaryRedirect url))"
    with http_auth_helper_result [of env ?st1]
    have "HttpResponseTemporaryRedirect url = challenge (settings ?st1)"
      by auto
    then have "status_code (HttpResponseTemporaryRedirect url) = status_code (challenge (settings ?st1))"
      by simp
    then show False
      by (simp add: status_code_challenge redirect_response)
  qed
  with checked show ?thesis
    by simp
qed

theorem C7_forwarded_https_not_redirected_witness:
  "reaches_transport_check sample_env
     (with_headers sample_state [(''HTTP_X_FORWARDED_PROTO'', ''https'')]) sample_view \<and>
   META (request (with_headers sample_state [(''HTTP_X_FORWARDED_PROTO'', ''https'')]))
     ''HTTP_X_FORWARDED_PROTO'' = Some ''https'' \<and>
   \<not> is_secure (request (with_headers sample_state [(''HTTP_X_FORWARDED_PROTO'', ''https'')])) \<and>
   fst (process_request sample_env (with_headers sample_state [(''HTTP_X_FORWARDED_PROTO'', ''https'')])) =
     Inr (Some moat_challenge) \<and>
   fst (process_request sample_env (with_headers sample_state [(''HTTP_X_FORWARDED_PROTO'', ''https'')])) \<noteq>
     Inr (Some (HttpResponseTemporaryRedirect ''https://example.com/checkout/?step=2''))"
proof -
  let ?st = "with_headers sample_state [(''HTTP_X_FORWARDED_PROTO'', ''https'')]"
  have reach: "reaches_transport_check sample_env ?st sample_view"
    by (simp add: reaches_transport_check_def sample_defs startswith_def dict_get_def)
  have forwarded: "META (request ?st) ''HTTP_X_FORWARDED_PROTO'' = Some ''https''"
    by (simp add: sample_defs)
  have insecure: "\<not> is_secure (request ?st)"
    by (simp add: sample_defs)
  have challenged: "fst (http_auth_helper sample_env (?st\<lparr>request := (request ?st)\<lparr>is_secure := True\<rparr>\<rparr>)) =
      Inr (Some moat_challenge)"
    by (simp add: http_auth_helper_def sample_defs response_defs Let_def)
  from C7_forwarded_https_not_redirected [OF reach forwarded] reach forwarded insecure challenged
  show ?thesis
    by (simp add: moat_challenge_def redirect_response)
qed

text \<open>
  \<^bold>\<open>C8\<close>, as stated, fails: with \<open>settings.DEBUG\<close> on, an insecure \<open>PUT\<close> that reaches
  the transport check is redirected with the 307 response; no error is raised. The guard
  of \<open>_redirect\<close> compares the method with \<open>POST\<close> only.
\<close>

theorem C8_debug_put_counterexample:
  "DEBUG (settings (sample_state\<lparr>settings := sample_settings\<lparr>DEBUG := True\<rparr>,
        request := sample_request\<lparr>http_method := ''PUT''\<rparr>\<rparr>)) \<and>
   http_method (request (sample_state\<lparr>settings := sample_settings\<lparr>DEBUG := True\<rparr>,
        request := sample_request\<lparr>http_method := ''PUT''\<rparr>\<rparr>)) = ''PUT'' \<and>
   \<not> is_secure (request (sample_state\<lparr>settings := sample_settings\<lparr>DEBUG := True\<rparr>,
        request := sample_request\<lparr>http_method := ''PUT''\<rparr>\<rparr>)) \<and>
   fst (process_request sample_env
     (sample_state\<lparr>settings := sample_settings\<lparr>DEBUG := True\<rparr>,
        request := sample_request\<lparr>http_method := ''PUT''\<rparr>\<rparr>)) =
     Inr (Some \<lparr>status_code = 307,
       headers = [(''Location'', ''https://example.com/checkout/?step=2'')]\<rparr>)"
  by (simp add: process_request_def redirect_def sample_defs response_defs
      startswith_def dict_get_def Let_def)

text \<open>
  \<^bold>\<open>C8\<close>, amended. With \<open>settings.DEBUG\<close> on, an insecure request that would be
  redirected (it reaches the transport check, without forwarded \<open>https\<close>, with
  \<open>debug_disable_https\<close> off) raises \<open>RuntimeError\<close> instead of the redirect when its
  method is exactly \<open>POST\<close>; with any other method, \<open>PUT\<close>, \<open>PATCH\<close> and \<open>DELETE\<close>
  among them, the 307 redirect is returned.
\<close>

theorem C8_debug_post_raises:
  assumes "reaches_transport_check env st view_func"
    and "\<not> is_secure (request st)"
    and "META (request st) ''HTTP_X_FORWARDED_PROTO'' \<noteq> Some ''https''"
    and "\<not> debug_disable_https (self st)"
    and "DEBUG (settings st)"
  shows "(http_method (request st) = ''POST'' \<longrightarrow> process_request env st = (Inl RuntimeError, st)) \<and>
    (http_method (request st) \<noteq> ''POST'' \<longrightarrow>
      process_request env st =
        (Inr (Some (HttpResponseTemporaryRedirect
           (''https://'' @ get_host (request st) @ get_full_path (request st)))), st))"
  using process_request_insecure [OF assms(1-4)] assms(5)
  by (simp add: redirect_def Let_def)

theorem C8_debug_post_raises_witness:
  "reaches_transport_check sample_env
     (sample_state\<lparr>settings := sample_settings\<lparr>DEBUG := True\<rparr>,
        request := sample_request\<lparr>http_method := ''POST''\<rparr>\<rparr>) sample_view \<and>
   DEBUG (settings (sample_state\<lparr>settings := sample_settings\<lparr>DEBUG := True\<rparr>,
        request := sample_request\<lparr>http_method := ''POST''\<rparr>\<rparr>)) \<and>
   http_method (request (sample_state\<lparr>settings := sample_settings\<lparr>DEBUG := True\<rparr>,
        request := sample_request\<lparr>http_method := ''POST''\<rparr>\<rparr>)) = ''POST'' \<and>
   process_request sample_env
     (sample_state\<lparr>settings := sample_settings\<lparr>DEBUG := True\<rparr>,
        request := sample_request\<lparr>http_method := ''POST''\<rparr>\<rparr>) =
     (Inl RuntimeError,
      sample_state\<lparr>settings := sample_settings\<lparr>DEBUG := True\<rparr>,
        request := sample_request\<lparr>http_method := ''POST''\<rparr>\<rparr>)"
proof -
  let ?st = "sample_state\<lparr>settings := sample_settings\<lparr>DEBUG := True\<rparr>,
        request := sample_request\<lparr>http_method := ''POST''\<rparr>\<rparr>"
  have h1: "reaches_transport_check sample_env ?st sample_view"
    by (simp add: reaches_transport_check_def sample_defs startswith_def dict_get_def)
  have h2: "\<not> is_secure (request ?st)"
    by (simp add: sample_defs)
  have h3: "META (request ?st) ''HTTP_X_FORWARDED_PROTO'' \<noteq> Some ''https''"
    by (simp add: sample_defs)
  have h4: "\<not> debug_disable_https (self ?st)"
    by (simp add: sample_defs)
  have h5: "DEBUG (settings ?st)"
    by (simp add: sample_defs)
  have post: "http_method (request ?st) = ''POST''"
    by (simp add: sample_defs)
  from C8_debug_post_raises [OF h1 h2 h3 h4 h5] post
  have "process_request sample_env ?st = (Inl RuntimeError, ?st)"
    by blast
  with h1 h5 post show ?thesis
    by blast
qed






text \<open>
  \<^bold>\<open>C10\<close>. With \<open>settings.DEBUG\<close> off, an insecure request that reaches the redirect
  (it gets past every early return, without forwarded \<open>https\<close>, with
  \<open>debug_disable_https\<close> off) is answered with the 307 redirect whatever its method is,
  \<open>POST\<close> included, and nothing is written. \<open>_redirect\<close> raises exactly when
  \<open>settings.DEBUG\<close> is on and the method is \<open>POST\<close>.
\<close>

theorem C10_production_post_redirected:
  "(reaches_transport_check env st view_func \<and> \<not> is_secure (request st) \<and>
    META (request st) ''HTTP_X_FORWARDED_PROTO'' \<noteq> Some ''https'' \<and>
    \<not> debug_disable_https (self st) \<and> \<not> DEBUG (settings st) \<longrightarrow>
      process_request env st =
        (Inr (Some (HttpResponseTemporaryRedirect
           (''https://'' @ get_host (request st) @ get_full_path (request st)))), st) \<and>
      status_code (HttpResponseTemporaryRedirect
           (''https://'' @ get_host (request st) @ get_full_path (request st))) = 307) \<and>
   ((\<exists>e. fst (redirect st) = Inl e) \<longleftrightarrow> DEBUG (settings st) \<and> http_method (request st) = ''POST'') \<and>
   (fst (redirect st) = Inl RuntimeError \<longleftrightarrow> DEBUG (settings st) \<and> http_method (request st) = ''POST'')"
proof (intro conjI impI)
  assume h: "reaches_transport_check env st view_func \<and> \<not> is_secure (request st) \<and>
    META (request st) ''HTTP_X_FORWARDED_PROTO'' \<noteq> Some ''https'' \<and>
    \<not> debug_disable_https (self st) \<and> \<not> DEBUG (settings st)"
  then have "process_request env st = redirect st"
    using process_request_insecure [of env st view_func] by blast
  with h show "process_request env st =
        (Inr (Some (HttpResponseTemporaryRedirect
           (''https://'' @ get_host (request st) @ get_full_path (request st)))), st)"
    by (simp add: redirect_def Let_def)
  show "status_code (HttpResponseTemporaryRedirect
           (''https://'' @ get_host (request st) @ get_full_path (request st))) = 307"
    by (simp add: redirect_response)
next
  show "(\<exists>e. fst (redirect st) = Inl e) \<longleftrightarrow> DEBUG (settings st) \<and> http_method (request st) = ''POST''"
    by (simp add: redirect_def Let_def)
  show "fst (redirect st) = Inl RuntimeError \<longleftrightarrow> DEBUG (settings st) \<and> http_method (request st) = ''POST''"
    by (simp add: redirect_def Let_def)
qed

theorem C10_production_post_redirected_witness:
  "reaches_transport_check sample_env
     (sample_state\<lparr>request := sample_request\<lparr>http_method := ''POST''\<rparr>\<rparr>) sample_view \<and>
   \<not> DEBUG (settings (sample_state\<lparr>request := sample_request\<lparr>http_method := ''POST''\<rparr>\<rparr>)) \<and>
   http_method (request (sample_state\<lparr>request := sample_request\<lparr>http_method := ''POST''\<rparr>\<rparr>)) = ''POST'' \<and>
   process_request sample_env (sample_state\<lparr>request := sample_request\<lparr>http_method := ''POST''\<rparr>\<rparr>) =
     (Inr (Some \<lparr>status_code = 307,
        headers = [(''Location'', ''https://example.com/checkout/?step=2'')]\<rparr>),
      sample_state\<lparr>request := sample_request\<lparr>http_method := ''POST''\<rparr>\<rparr>)"
proof -
  let ?st = "sample_state\<lparr>request := sample_request\<lparr>http_method := ''POST''\<rparr>\<rparr>"
  have h: "reaches_transport_check sample_env ?st sample_view \<and> \<not> is_secure (request ?st) \<and>
      META (request ?st) ''HTTP_X_FORWARDED_PROTO'' \<noteq> Some ''https'' \<and>
      \<not> debug_disable_https (self ?st) \<and> \<not> DEBUG (settings ?st)"
    by (simp add: reaches_transport_check_def sample_defs startswith_def dict_get_def)
  have post: "http_method (request ?st) = ''POST''"
    by (simp add: sample_defs)
  from C10_production_post_redirected [of sample_env ?st sample_view] h
  have "process_request sample_env ?st =
      (Inr (Some (HttpResponseTemporaryRedirect
         (''https://'' @ get_host (request ?st) @ get_full_path (request ?st)))), ?st)"
    by blast
  then have "process_request sample_env ?st =
      (Inr (Some \<lparr>status_code = 307,
        headers = [(''Location'', ''https://example.com/checkout/?step=2'')]\<rparr>), ?st)"
    by (simp add: redirect_response sample_request_def)
  with h post show ?thesis
    by blast
qed


end
